theory Spec2Isabelle
  imports Main
begin

section \<open>Data model of rl\_coach/graph\_managers/hac\_graph\_manager.py\<close>

text \<open>
  The module builds a Hierarchical Actor-Critic training topology. Its two methods,
  \<open>HACGraphManager.__init__\<close> and \<open>HACGraphManager._create_graph\<close>, mutate the
  \<open>AgentParameters\<close> objects they are handed and call into the framework (default
  filters, dynamic instantiation of the environment and of the agents, the
  \<open>LevelManager\<close> constructor). The embedding makes these effects explicit:

  \<^item> agent parameter objects live in a store, and the Python list \<open>agents_params\<close> is a
    list of references into it, so the same object may occur at several levels;
  \<^item> every call into the framework is appended to a chronological trace;
  \<^item> a raised exception is the \<open>Inl\<close> branch of the result, and the world reached at
    the moment of the raise is returned beside it.

  Values the module never inspects (filters, visualization, schedule, task and preset
  validation parameters) are type variables.
\<close>

type_synonym addr = nat

text \<open>\<open>core_types.EnvironmentSteps(num_steps)\<close>.\<close>

datatype step_method = EnvironmentSteps int

text \<open>
  The argument \<open>consecutive_steps_to_run_non_top_levels\<close> as the two \<open>isinstance\<close>
  tests of the constructor see it: a list, an \<open>EnvironmentSteps\<close>, or any other value.
\<close>

datatype 'x steps_argument =
    AsList "step_method list"
  | AsEnvironmentSteps step_method
  | AsOther 'x

datatype error = ValueError string | AttributeError string

definition steps_mismatch_message :: string where
  "steps_mismatch_message =
     ''If the consecutive_steps_to_run_each_level is given as a list, it should match '' @
     ''the number of levels in the hierarchy. Alternatively, it is possible to use a single '' @
     ''value for all the levels, by passing an EnvironmentSteps''"

definition too_few_levels_message :: string where
  "too_few_levels_message =
     ''The HAC graph manager must receive the agent parameters for at least two levels of the '' @
     ''hierarchy. Otherwise, use the basic RL graph manager.''"

text \<open>The fields of an \<open>AgentParameters\<close> object that the module reads or writes.\<close>

record ('f, 'v, 't) agent_parameters =
  visualization :: 'v
  input_filter :: "'f option"
  output_filter :: "'f option"
  task_parameters :: "'t option"
  name :: string
  is_a_highest_level_agent :: bool
  is_a_lowest_level_agent :: bool
  path :: string

text \<open>
  \<open>EnvironmentParameters\<close>: the class is a collaborator of the module; its two
  callables \<open>default_input_filter()\<close> and \<open>default_output_filter()\<close> are taken as
  the filter objects they return.
\<close>

record 'f environment_parameters =
  env_path :: string
  default_input_filter :: 'f
  default_output_filter :: 'f

text \<open>
  Objects created by dynamic instantiation carry the number of the instantiation, so
  that two instances built from equal parameters are still different objects.
\<close>

datatype ('f, 'v) environment =
  Environment (instance_id: nat) (built_from: "'f environment_parameters") (shown_with: 'v)

datatype ('f, 'v, 't) agent =
  Agent (agent_id: nat) (params_ref: addr) (params_at_init: "('f, 'v, 't) agent_parameters")

text \<open>
  A \<open>LevelManager\<close> is recorded as the keyword arguments it is constructed with
  (\<open>name\<close> is \<open>level_name\<close> here, the agent parameters own \<open>name\<close>). Its
  \<open>environment\<close> is either the true environment or the level manager beneath it.
\<close>

datatype ('f, 'v, 't) lower_environment =
    RealEnvironment "('f, 'v) environment"
  | Level "('f, 'v, 't) level_manager"
and ('f, 'v, 't) level_manager =
  LevelManager
    (agents: "('f, 'v, 't) agent")
    (environment: "('f, 'v, 't) lower_environment")
    (real_environment: "('f, 'v) environment")
    (steps_limit: step_method)
    (should_reset_agent_state_after_time_limit_passes: bool)
    (level_name: string)

datatype event =
    DefaultInputFilterCall
  | DefaultOutputFilterCall
  | EnvironmentInstantiated nat
  | AgentInstantiated nat addr

record ('f, 'v, 't) world =
  store :: "addr \<Rightarrow> ('f, 'v, 't) agent_parameters"
  trace :: "event list"
  instances :: nat

text \<open>
  The \<open>HACGraphManager\<close> object. \<open>consecutive_steps_to_run_non_top_levels\<close> is
  \<open>None\<close> while the attribute has not been assigned; reading it then raises
  \<open>AttributeError\<close>.
\<close>

record ('f, 'v, 'p) hac_graph_manager =
  manager_name :: string
  visualization_parameters :: 'v
  agents_params :: "addr list"
  env_params :: "'f environment_parameters"
  preset_validation_params :: 'p
  should_test_current_sub_goal :: "bool option"
  consecutive_steps_to_run_non_top_levels :: "step_method option"

section \<open>The constructor\<close>

text \<open>
  Modelled from the spec: the base-class constructor \<open>GraphManager.__init__\<close>
  (rl\_coach/graph\_managers/graph\_manager.py is not among the sources). The spec calls
  its third argument the shared visualization configuration that is propagated onto
  every agent configuration; the module reads it back as
  \<open>self.visualization_parameters\<close>. The schedule parameters are consumed by the base
  class and never read by this module.
\<close>

definition GraphManager_init :: "string \<Rightarrow> 's \<Rightarrow> 'v \<Rightarrow> string \<times> 'v" where
  "GraphManager_init nm schedule_params vis_params = (nm, vis_params)"

text \<open>Lines 54-60: the two \<open>isinstance\<close> branches.\<close>

definition store_steps ::
  "'x steps_argument \<Rightarrow> ('f, 'v, 'p) hac_graph_manager \<Rightarrow> error + ('f, 'v, 'p) hac_graph_manager"
where
  "store_steps steps self =
     (case steps of
        AsList l \<Rightarrow>
          if length l \<noteq> length (agents_params self)
          then Inl (ValueError steps_mismatch_message)
          else Inr self
      | AsEnvironmentSteps d \<Rightarrow>
          Inr (self\<lparr>consecutive_steps_to_run_non_top_levels := Some d\<rparr>)
      | AsOther _ \<Rightarrow> Inr self)"

text \<open>Lines 63-67: the body of the loop over \<open>agents_params\<close>, for the object at \<open>a\<close>.\<close>

definition set_visualization ::
  "'v \<Rightarrow> addr \<Rightarrow> ('f, 'v, 't) world \<Rightarrow> ('f, 'v, 't) world"
where
  "set_visualization vis a w = w\<lparr>store := (store w)(a := (store w a)\<lparr>visualization := vis\<rparr>)\<rparr>"

definition fill_input_filter ::
  "'f environment_parameters \<Rightarrow> addr \<Rightarrow> ('f, 'v, 't) world \<Rightarrow> ('f, 'v, 't) world"
where
  "fill_input_filter ep a w =
     (if input_filter (store w a) = None
      then w\<lparr>store := (store w)(a := (store w a)\<lparr>input_filter := Some (default_input_filter ep)\<rparr>),
             trace := trace w @ [DefaultInputFilterCall]\<rparr>
      else w)"

definition fill_output_filter ::
  "'f environment_parameters \<Rightarrow> addr \<Rightarrow> ('f, 'v, 't) world \<Rightarrow> ('f, 'v, 't) world"
where
  "fill_output_filter ep a w =
     (if output_filter (store w a) = None
      then w\<lparr>store := (store w)(a := (store w a)\<lparr>output_filter := Some (default_output_filter ep)\<rparr>),
             trace := trace w @ [DefaultOutputFilterCall]\<rparr>
      else w)"

definition fill_defaults ::
  "'f environment_parameters \<Rightarrow> 'v \<Rightarrow> addr \<Rightarrow> ('f, 'v, 't) world \<Rightarrow> ('f, 'v, 't) world"
where
  "fill_defaults ep vis a w =
     fill_output_filter ep a (fill_input_filter ep a (set_visualization vis a w))"

definition HACGraphManager_init ::
  "addr list \<Rightarrow> 'f environment_parameters \<Rightarrow> 's \<Rightarrow> 'v \<Rightarrow> 'x steps_argument \<Rightarrow> 'p \<Rightarrow>
   ('f, 'v, 't) world \<Rightarrow> (error + ('f, 'v, 'p) hac_graph_manager) \<times> ('f, 'v, 't) world"
where
  "HACGraphManager_init agents_params0 env_params0 schedule_params vis_params steps preset w =
     (let base = GraphManager_init ''hac_graph'' schedule_params vis_params;
          self = \<lparr>manager_name = fst base,
                  visualization_parameters = snd base,
                  agents_params = agents_params0,
                  env_params = env_params0,
                  preset_validation_params = preset,
                  should_test_current_sub_goal = None,
                  consecutive_steps_to_run_non_top_levels = None\<rparr>
      in case store_steps steps self of
           Inl e \<Rightarrow> (Inl e, w)
         | Inr self1 \<Rightarrow>
             (let w1 = fold (fill_defaults (env_params self1) (visualization_parameters self1))
                            agents_params0 w
              in if length (agents_params self1) < 2
                 then (Inl (ValueError too_few_levels_message), w1)
                 else (Inr self1, w1)))"

section \<open>Graph construction\<close>

text \<open>\<open>"agent_{}".format(level_idx)\<close>: the decimal numeral of a natural number.\<close>

function format_nat :: "nat \<Rightarrow> string" where
  "format_nat n =
     (if n < 10 then [''0123456789'' ! n]
      else format_nat (n div 10) @ [''0123456789'' ! (n mod 10)])"
  by pat_completeness auto
termination
  by (relation "measure id") auto

declare format_nat.simps [simp del]

definition instantiate_environment ::
  "'f environment_parameters \<Rightarrow> 'v \<Rightarrow> ('f, 'v, 't) world \<Rightarrow> ('f, 'v) environment \<times> ('f, 'v, 't) world"
where
  "instantiate_environment ep vis w =
     (Environment (instances w) ep vis,
      w\<lparr>trace := trace w @ [EnvironmentInstantiated (instances w)],
        instances := Suc (instances w)\<rparr>)"

definition instantiate_agent ::
  "addr \<Rightarrow> ('f, 'v, 't) world \<Rightarrow> ('f, 'v, 't) agent \<times> ('f, 'v, 't) world"
where
  "instantiate_agent a w =
     (Agent (instances w) a (store w a),
      w\<lparr>trace := trace w @ [AgentInstantiated (instances w) a],
        instances := Suc (instances w)\<rparr>)"

text \<open>Lines 77-78.\<close>

definition set_task_parameters ::
  "'t \<Rightarrow> addr \<Rightarrow> ('f, 'v, 't) world \<Rightarrow> ('f, 'v, 't) world"
where
  "set_task_parameters tp a w =
     w\<lparr>store := (store w)(a := (store w a)\<lparr>task_parameters := Some tp\<rparr>)\<rparr>"

text \<open>Lines 86-88: the hierarchy position written onto the agent parameters.\<close>

definition mark_level ::
  "('f, 'v, 'p) hac_graph_manager \<Rightarrow> nat \<Rightarrow> addr \<Rightarrow> ('f, 'v, 't) world \<Rightarrow> ('f, 'v, 't) world"
where
  "mark_level self level_idx a w =
     w\<lparr>store := (store w)(a := (store w a)
         \<lparr>name := ''agent_'' @ format_nat level_idx,
          is_a_highest_level_agent := (level_idx = 0),
          is_a_lowest_level_agent := (int level_idx = int (length (agents_params self)) - 1)\<rparr>)\<rparr>"

text \<open>Lines 96-97: the \<open>steps_limit\<close> argument; the attribute is read only off the top level.\<close>

definition steps_limit_of ::
  "('f, 'v, 'p) hac_graph_manager \<Rightarrow> nat \<Rightarrow> error + step_method"
where
  "steps_limit_of self level_idx =
     (if level_idx = 0 then Inr (EnvironmentSteps 1)
      else case consecutive_steps_to_run_non_top_levels self of
             None \<Rightarrow> Inl (AttributeError ''consecutive_steps_to_run_non_top_levels'')
           | Some d \<Rightarrow> Inr d)"

text \<open>
  Lines 85-102: the loop, over the remaining (index, reference) pairs, with the loop
  variables \<open>current_env\<close> and \<open>level_managers\<close>.
\<close>

fun build_levels ::
  "('f, 'v, 'p) hac_graph_manager \<Rightarrow> ('f, 'v) environment \<Rightarrow> (nat \<times> addr) list \<Rightarrow>
   ('f, 'v, 't) lower_environment \<Rightarrow> ('f, 'v, 't) level_manager list \<Rightarrow> ('f, 'v, 't) world \<Rightarrow>
   (error + ('f, 'v, 't) level_manager list) \<times> ('f, 'v, 't) world"
where
  "build_levels self env [] current_env level_managers w = (Inr level_managers, w)"
| "build_levels self env ((level_idx, a) # rest) current_env level_managers w =
     (let w1 = mark_level self level_idx a w;
          (agent, w2) = instantiate_agent a w1
      in case steps_limit_of self level_idx of
           Inl e \<Rightarrow> (Inl e, w2)
         | Inr limit \<Rightarrow>
             (let level_manager =
                    LevelManager agent current_env env limit (level_idx > 0)
                      (''level_'' @ format_nat level_idx)
              in build_levels self env rest (Level level_manager)
                   (level_manager # level_managers) w2))"

definition create_graph ::
  "('f, 'v, 'p) hac_graph_manager \<Rightarrow> 't \<Rightarrow> ('f, 'v, 't) world \<Rightarrow>
   (error + ('f, 'v, 't) level_manager list \<times> ('f, 'v) environment list) \<times> ('f, 'v, 't) world"
where
  "create_graph self task_params w =
     (let (env, w1) = instantiate_environment (env_params self) (visualization_parameters self) w;
          w2 = fold (set_task_parameters task_params) (agents_params self) w1
      in case build_levels self env (rev (List.enumerate 0 (agents_params self)))
                (RealEnvironment env) [] w2 of
           (Inl e, w3) \<Rightarrow> (Inl e, w3)
         | (Inr level_managers, w3) \<Rightarrow> (Inr (level_managers, [env]), w3))"

section \<open>Auxiliary notions for the statements\<close>

text \<open>
  What the loop of lines 62-67 leaves in an agent parameter object, as one update: the
  shared visualization, and each filter kept when it was set and defaulted otherwise.
\<close>

definition filled ::
  "'f environment_parameters \<Rightarrow> 'v \<Rightarrow> ('f, 'v, 't) agent_parameters \<Rightarrow> ('f, 'v, 't) agent_parameters"
where
  "filled ep vis p =
     p\<lparr>visualization := vis,
       input_filter := Some (case input_filter p of None \<Rightarrow> default_input_filter ep | Some f \<Rightarrow> f),
       output_filter := Some (case output_filter p of None \<Rightarrow> default_output_filter ep | Some f \<Rightarrow> f)\<rparr>"

definition filter_call :: "event \<Rightarrow> bool" where
  "filter_call ev \<longleftrightarrow> ev = DefaultInputFilterCall \<or> ev = DefaultOutputFilterCall"

text \<open>
  What one iteration of the loop of lines 85-102 hands to the \<open>LevelManager\<close>
  constructor for level \<open>level_idx\<close>, whose agent parameters are at \<open>a\<close> and whose
  lower environment is \<open>lower\<close>.
\<close>

definition level_built ::
  "('f, 'v, 'p) hac_graph_manager \<Rightarrow> ('f, 'v) environment \<Rightarrow> nat \<Rightarrow> addr \<Rightarrow>
   ('f, 'v, 't) lower_environment \<Rightarrow> ('f, 'v, 't) level_manager \<Rightarrow> bool"
where
  "level_built self env level_idx a lower lm \<longleftrightarrow>
     params_ref (agents lm) = a \<and>
     environment lm = lower \<and>
     real_environment lm = env \<and>
     steps_limit_of self level_idx = Inr (steps_limit lm) \<and>
     should_reset_agent_state_after_time_limit_passes lm = (0 < level_idx) \<and>
     level_name lm = ''level_'' @ format_nat level_idx"

text \<open>
  Concrete inputs for the examples: a store in which every object has no input filter
  and the explicit output filter 7, and an environment whose default filters are 1 and 2.
\<close>

definition sample_params :: "(nat, nat, unit) agent_parameters" where
  "sample_params =
     \<lparr>visualization = 0, input_filter = None, output_filter = Some 7,
      task_parameters = None, name = [], is_a_highest_level_agent = False,
      is_a_lowest_level_agent = False, path = ''rl_coach.agents.ddpg_agent:DDPGAgent''\<rparr>"

definition sample_store :: "addr \<Rightarrow> (nat, nat, unit) agent_parameters" where
  "sample_store a = sample_params"

definition sample_world :: "(nat, nat, unit) world" where
  "sample_world = \<lparr>store = sample_store, trace = [], instances = 0\<rparr>"

definition sample_env_params :: "nat environment_parameters" where
  "sample_env_params =
     \<lparr>env_path = ''rl_coach.environments.gym_environment:GymEnvironment'',
      default_input_filter = 1, default_output_filter = 2\<rparr>"

section \<open>Properties of the constructor\<close>

lemma messages_differ: "steps_mismatch_message \<noteq> too_few_levels_message"
  by (simp add: steps_mismatch_message_def too_few_levels_message_def)

lemma filled_idem: "filled ep vis (filled ep vis p) = filled ep vis p"
  by (simp add: filled_def)

lemma fill_defaults_store:
  "store (fill_defaults ep vis a w) = (store w)(a := filled ep vis (store w a))"
  by (auto simp: fill_defaults_def fill_output_filter_def fill_input_filter_def
      set_visualization_def filled_def fun_eq_iff split: option.splits)

lemma fill_defaults_instances: "instances (fill_defaults ep vis a w) = instances w"
  by (simp add: fill_defaults_def fill_output_filter_def fill_input_filter_def
      set_visualization_def)

lemma fill_defaults_trace:
  "\<exists>evs. trace (fill_defaults ep vis a w) = trace w @ evs \<and> list_all filter_call evs"
  by (simp add: fill_defaults_def fill_output_filter_def fill_input_filter_def
      set_visualization_def filter_call_def)

text \<open>
  The loop visits references, not objects: an object listed twice is filled once and
  left as it is by the second visit.
\<close>

lemma fold_fill_defaults_store:
  "store (fold (fill_defaults ep vis) as w) a =
     (if a \<in> set as then filled ep vis (store w a) else store w a)"
  by (induction as arbitrary: w) (auto simp: fill_defaults_store filled_idem)

lemma fold_fill_defaults_instances:
  "instances (fold (fill_defaults ep vis) as w) = instances w"
  by (induction as arbitrary: w) (auto simp: fill_defaults_instances)

lemma fold_fill_defaults_trace:
  "\<exists>evs. trace (fold (fill_defaults ep vis) as w) = trace w @ evs \<and> list_all filter_call evs"
proof (induction as arbitrary: w)
  case Nil
  then show ?case by simp
next
  case (Cons a as)
  obtain e1 where e1: "trace (fill_defaults ep vis a w) = trace w @ e1" "list_all filter_call e1"
    using fill_defaults_trace [of ep vis a w] by auto
  obtain e2 where e2: "trace (fold (fill_defaults ep vis) as (fill_defaults ep vis a w)) =
      trace (fill_defaults ep vis a w) @ e2" "list_all filter_call e2"
    using Cons.IH [of "fill_defaults ep vis a w"] by auto
  have "trace (fold (fill_defaults ep vis) (a # as) w) = trace w @ (e1 @ e2)"
    using e1 e2 by simp
  moreover have "list_all filter_call (e1 @ e2)" using e1 e2 by simp
  ultimately show ?case by blast
qed

text \<open>The three ways the constructor ends, in the order the source tests them.\<close>

lemma init_cases:
  "HACGraphManager_init aps ep sched vis steps preset w =
     (if (\<exists>l. steps = AsList l \<and> length l \<noteq> length aps)
      then (Inl (ValueError steps_mismatch_message), w)
      else if length aps < 2
      then (Inl (ValueError too_few_levels_message), fold (fill_defaults ep vis) aps w)
      else (Inr \<lparr>manager_name = ''hac_graph'',
                  visualization_parameters = vis,
                  agents_params = aps,
                  env_params = ep,
                  preset_validation_params = preset,
                  should_test_current_sub_goal = None,
                  consecutive_steps_to_run_non_top_levels =
                    (case steps of AsEnvironmentSteps d \<Rightarrow> Some d | _ \<Rightarrow> None)\<rparr>,
            fold (fill_defaults ep vis) aps w))"
  by (cases steps)
     (simp_all add: HACGraphManager_init_def GraphManager_init_def store_steps_def Let_def)

text \<open>
  Claim C2. Whenever fewer than two agent configurations are supplied, the constructor
  ends in a \<open>ValueError\<close>, whatever the other arguments are, and so never returns a
  graph manager.
\<close>

theorem C2_too_few_levels_raises:
  assumes "length aps < 2"
  shows "(\<exists>msg. fst (HACGraphManager_init aps ep sched vis steps preset w) = Inl (ValueError msg))
       \<and> (\<forall>m. fst (HACGraphManager_init aps ep sched vis steps preset w) \<noteq> Inr m)"
  using assms by (simp add: init_cases)

theorem C2_too_few_levels_raises_witness:
  "length [0::nat] < 2 \<and>
   fst (HACGraphManager_init [0] sample_env_params () (3::nat)
          (AsEnvironmentSteps (EnvironmentSteps 5) :: unit steps_argument) () sample_world)
     = Inl (ValueError too_few_levels_message)"
  using C2_too_few_levels_raises [of "[0]" sample_env_params "()" "3::nat"
      "AsEnvironmentSteps (EnvironmentSteps 5) :: unit steps_argument" "()" sample_world]
  by (simp add: init_cases)

text \<open>
  Claim C3. When the duration is a list whose length differs from the number of agent
  configurations, the constructor ends in the \<open>ValueError\<close> of lines 56-58; when the
  lengths agree, that check does not raise (the constructor may still end in the other
  error, but never in this one).
\<close>

theorem C3_list_length_check:
  "(length l \<noteq> length aps \<longrightarrow>
      fst (HACGraphManager_init aps ep sched vis (AsList l) preset w)
        = Inl (ValueError steps_mismatch_message))
   \<and> (length l = length aps \<longrightarrow>
      fst (HACGraphManager_init aps ep sched vis (AsList l) preset w)
        \<noteq> Inl (ValueError steps_mismatch_message))"
  using messages_differ by (simp add: init_cases)

theorem C3_list_length_check_witness:
  "length [EnvironmentSteps 4] \<noteq> length [0::nat, 1] \<and>
   fst (HACGraphManager_init [0, 1] sample_env_params () (3::nat)
          (AsList [EnvironmentSteps 4] :: unit steps_argument) () sample_world)
     = Inl (ValueError steps_mismatch_message) \<and>
   length [EnvironmentSteps 4, EnvironmentSteps 9] = length [0::nat, 1] \<and>
   fst (HACGraphManager_init [0, 1] sample_env_params () (3::nat)
          (AsList [EnvironmentSteps 4, EnvironmentSteps 9] :: unit steps_argument) () sample_world)
     \<noteq> Inl (ValueError steps_mismatch_message)"
  using C3_list_length_check [of "[EnvironmentSteps 4]" "[0, 1]" sample_env_params "()" "3::nat" "()" sample_world]
    C3_list_length_check [of "[EnvironmentSteps 4, EnvironmentSteps 9]" "[0, 1]" sample_env_params "()" "3::nat" "()" sample_world]
  by simp

text \<open>
  Claim C9. A duration that is neither a list nor an \<open>EnvironmentSteps\<close> raises
  nothing of its own: with at least two levels the constructor returns a graph manager
  whose attribute \<open>consecutive_steps_to_run_non_top_levels\<close> is unset, and with fewer
  the only error is the one about the number of levels.
\<close>

theorem C9_other_value_ignored:
  "(2 \<le> length aps \<longrightarrow>
      (\<exists>m. fst (HACGraphManager_init aps ep sched vis (AsOther x) preset w) = Inr m
         \<and> consecutive_steps_to_run_non_top_levels m = None))
   \<and> (length aps < 2 \<longrightarrow>
      fst (HACGraphManager_init aps ep sched vis (AsOther x) preset w)
        = Inl (ValueError too_few_levels_message))
   \<and> fst (HACGraphManager_init aps ep sched vis (AsOther x) preset w)
        \<noteq> Inl (ValueError steps_mismatch_message)"
  using messages_differ by (simp add: init_cases)

theorem C9_other_value_ignored_witness:
  "2 \<le> length [0::nat, 1] \<and>
   (\<exists>m. fst (HACGraphManager_init [0, 1] sample_env_params () (3::nat)
          (AsOther ''ten steps'') () sample_world) = Inr m
       \<and> consecutive_steps_to_run_non_top_levels m = None) \<and>
   length [0::nat] < 2 \<and>
   fst (HACGraphManager_init [0] sample_env_params () (3::nat)
          (AsOther ''ten steps'') () sample_world) = Inl (ValueError too_few_levels_message)"
  using C9_other_value_ignored [of "[0, 1]" sample_env_params "()" "3::nat" "''ten steps''" "()" sample_world]
    C9_other_value_ignored [of "[0]" sample_env_params "()" "3::nat" "''ten steps''" "()" sample_world]
  by simp

text \<open>
  Claim C6. For a configuration that passes both checks (at least two levels, and a
  duration list, if one is given, of matching length) the constructor returns, and then
  every listed agent configuration carries the shared visualization parameters; a
  filter that was unset holds the environment's default and a filter that was set is
  unchanged, so neither filter is unset afterwards.
\<close>

theorem C6_defaults_filled:
  assumes "2 \<le> length aps" and "\<And>l. steps = AsList l \<Longrightarrow> length l = length aps"
  shows "\<exists>m w'. HACGraphManager_init aps ep sched vis steps preset w = (Inr m, w') \<and>
           visualization_parameters m = vis \<and>
           (\<forall>a\<in>set aps.
              visualization (store w' a) = vis \<and>
              (input_filter (store w a) = None \<longrightarrow>
                 input_filter (store w' a) = Some (default_input_filter ep)) \<and>
              (\<forall>f. input_filter (store w a) = Some f \<longrightarrow> input_filter (store w' a) = Some f) \<and>
              (output_filter (store w a) = None \<longrightarrow>
                 output_filter (store w' a) = Some (default_output_filter ep)) \<and>
              (\<forall>f. output_filter (store w a) = Some f \<longrightarrow> output_filter (store w' a) = Some f) \<and>
              input_filter (store w' a) \<noteq> None \<and> output_filter (store w' a) \<noteq> None)"
  using assms by (auto simp: init_cases fold_fill_defaults_store filled_def)

theorem C6_defaults_filled_witness:
  "2 \<le> length [0::nat, 1] \<and>
   (\<exists>m w'. HACGraphManager_init [0, 1] sample_env_params () (3::nat)
          (AsEnvironmentSteps (EnvironmentSteps 5) :: unit steps_argument) () sample_world = (Inr m, w') \<and>
      input_filter (store sample_world 1) = None \<and>
      input_filter (store w' 1) = Some 1 \<and>
      output_filter (store sample_world 1) = Some 7 \<and>
      output_filter (store w' 1) = Some 7 \<and>
      visualization (store sample_world 1) = 0 \<and>
      visualization (store w' 1) = 3)"
  using C6_defaults_filled [of "[0, 1]" "AsEnvironmentSteps (EnvironmentSteps 5) :: unit steps_argument"
      sample_env_params "()" "3::nat" "()" sample_world]
  by (auto simp: sample_world_def sample_store_def sample_params_def sample_env_params_def)

text \<open>
  Claim C4, as stated, fails: the check of the number of levels (lines 69-71) comes
  after the loop that fills the defaults (lines 62-67). With a single agent
  configuration whose input filter is unset the constructor raises the error about the
  number of levels, and by then \<open>default_input_filter()\<close> has been called and the
  configuration's visualization and input filter have been overwritten.
\<close>

theorem C4_counterexample:
  "fst (HACGraphManager_init [0] sample_env_params () (3::nat)
          (AsEnvironmentSteps (EnvironmentSteps 5) :: unit steps_argument) () sample_world)
     = Inl (ValueError too_few_levels_message) \<and>
   trace sample_world = [] \<and>
   trace (snd (HACGraphManager_init [0] sample_env_params () (3::nat)
          (AsEnvironmentSteps (EnvironmentSteps 5) :: unit steps_argument) () sample_world))
     = [DefaultInputFilterCall] \<and>
   input_filter (store sample_world 0) = None \<and>
   input_filter (store (snd (HACGraphManager_init [0] sample_env_params () (3::nat)
          (AsEnvironmentSteps (EnvironmentSteps 5) :: unit steps_argument) () sample_world)) 0)
     = Some 1 \<and>
   visualization (store sample_world 0) = 0 \<and>
   visualization (store (snd (HACGraphManager_init [0] sample_env_params () (3::nat)
          (AsEnvironmentSteps (EnvironmentSteps 5) :: unit steps_argument) () sample_world)) 0)
     = 3"
  by (simp add: init_cases fill_defaults_def fill_input_filter_def fill_output_filter_def
      set_visualization_def sample_world_def sample_store_def sample_params_def
      sample_env_params_def)

text \<open>
  Claim C4, amended. The constructor fails in one of two ways. The error about the
  length of the duration list is raised with the world untouched: no default filter
  has been obtained and no agent configuration has been written to. The error about
  the number of levels is raised after the loop over the (at most one) supplied agent
  configuration: nothing has been instantiated dynamically and the only calls made are
  those for default filters, every listed configuration is filled as the loop fills
  it, and every other object is untouched.
\<close>

theorem C4_errors_and_effects:
  assumes "HACGraphManager_init aps ep sched vis steps preset w = (Inl e, w')"
  shows "(e = ValueError steps_mismatch_message \<and> w' = w)
       \<or> (e = ValueError too_few_levels_message \<and> length aps < 2 \<and>
          instances w' = instances w \<and>
          (\<exists>evs. trace w' = trace w @ evs \<and> list_all filter_call evs) \<and>
          (\<forall>a. store w' a = (if a \<in> set aps then filled ep vis (store w a) else store w a)))"
  using assms fold_fill_defaults_trace [of ep vis aps w]
  by (auto simp: init_cases fold_fill_defaults_store fold_fill_defaults_instances
      split: if_splits)

theorem C4_errors_and_effects_witness:
  "HACGraphManager_init [0, 1] sample_env_params () (3::nat)
          (AsList [EnvironmentSteps 4] :: unit steps_argument) () sample_world
     = (Inl (ValueError steps_mismatch_message), sample_world) \<and>
   HACGraphManager_init [0] sample_env_params () (3::nat)
          (AsOther ''ten steps'') () sample_world
     = (Inl (ValueError too_few_levels_message),
        fold (fill_defaults sample_env_params 3) [0] sample_world) \<and>
   instances (fold (fill_defaults sample_env_params 3) [0] sample_world) = instances sample_world \<and>
   store (fold (fill_defaults sample_env_params 3) [0] sample_world) 0 =
     filled sample_env_params 3 (store sample_world 0) \<and>
   store (fold (fill_defaults sample_env_params 3) [0] sample_world) 1 = store sample_world 1"
  using C4_errors_and_effects [of "[0, 1]" sample_env_params "()" "3::nat"
      "AsList [EnvironmentSteps 4] :: unit steps_argument" "()" sample_world
      "ValueError steps_mismatch_message" sample_world]
    C4_errors_and_effects [of "[0]" sample_env_params "()" "3::nat"
      "AsOther ''ten steps''" "()" sample_world
      "ValueError too_few_levels_message" "fold (fill_defaults sample_env_params 3) [0] sample_world"]
    messages_differ
  by (simp add: init_cases)

section \<open>Properties of graph construction\<close>

text \<open>
  The loop, run on any remaining pairs: when it returns, it has put one level manager
  per pair in front of the list it started from, the last pair's first, and each is
  bound to the one built just before it.
\<close>

lemma build_levels_result:
  assumes "build_levels self env ps cur lms w = (Inr out, w')"
  shows "\<exists>new. out = new @ lms \<and> length new = length ps \<and>
           (\<forall>j<length ps.
              level_built self env (fst (rev ps ! j)) (snd (rev ps ! j))
                (if Suc j < length ps then Level (new ! Suc j) else cur) (new ! j))"
  using assms
proof (induction ps arbitrary: cur lms w)
  case Nil
  then show ?case by simp
next
  case (Cons p rest)
  obtain idx a where p: "p = (idx, a)" by (cases p)
  define w2 where "w2 = snd (instantiate_agent a (mark_level self idx a w))"
  define ag where "ag = fst (instantiate_agent a (mark_level self idx a w))"
  obtain limit where lim: "steps_limit_of self idx = Inr limit"
    using Cons.prems by (cases "steps_limit_of self idx") (auto simp: p Let_def split: prod.splits)
  define lm where
    "lm = LevelManager ag cur env limit (0 < idx) (''level_'' @ format_nat idx)"
  have run: "build_levels self env rest (Level lm) (lm # lms) w2 = (Inr out, w')"
    using Cons.prems lim by (simp add: p Let_def lm_def ag_def w2_def split: prod.splits)
  from Cons.IH [OF run] obtain new' where
    out: "out = new' @ lm # lms" and len: "length new' = length rest" and
    rest: "\<forall>j<length rest.
             level_built self env (fst (rev rest ! j)) (snd (rev rest ! j))
               (if Suc j < length rest then Level (new' ! Suc j) else Level lm) (new' ! j)"
    by blast
  have built: "level_built self env idx a cur lm"
    by (simp add: level_built_def lm_def lim ag_def instantiate_agent_def)
  have "level_built self env (fst (rev (p # rest) ! j)) (snd (rev (p # rest) ! j))
          (if Suc j < length (p # rest) then Level ((new' @ [lm]) ! Suc j) else cur)
          ((new' @ [lm]) ! j)" if j: "j < length (p # rest)" for j
  proof (cases "j < length rest")
    case True
    then have "level_built self env (fst (rev rest ! j)) (snd (rev rest ! j))
        (if Suc j < length rest then Level (new' ! Suc j) else Level lm) (new' ! j)"
      using rest by blast
    then show ?thesis using True len by (auto simp: nth_append)
  next
    case False
    then have "j = length rest" using j by simp
    then show ?thesis using built len by (simp add: nth_append p)
  qed
  then show ?case using out len by (intro exI [of _ "new' @ [lm]"]) simp
qed

text \<open>Once the attribute is assigned, no iteration can raise.\<close>

lemma build_levels_returns:
  assumes "consecutive_steps_to_run_non_top_levels self = Some d"
  shows "\<exists>out w'. build_levels self env ps cur lms w = (Inr out, w')"
proof (induction ps arbitrary: cur lms w)
  case Nil
  then show ?case by simp
next
  case (Cons p rest)
  obtain idx a where p: "p = (idx, a)" by (cases p)
  show ?case
    using assms Cons.IH by (simp add: p steps_limit_of_def Let_def split: prod.splits)
qed

text \<open>While it is unassigned, the first iteration for a level below the top raises.\<close>

lemma build_levels_raises:
  assumes "consecutive_steps_to_run_non_top_levels self = None" and "0 < idx"
  shows "fst (build_levels self env ((idx, a) # rest) cur lms w) =
           Inl (AttributeError ''consecutive_steps_to_run_non_top_levels'')"
  using assms by (simp add: steps_limit_of_def Let_def split: prod.splits)

text \<open>
  What \<open>_create_graph\<close> returns, when it returns: the one environment it
  instantiated, and one level manager per agent configuration, top level first, each
  bound to the next one down and the last to the environment.
\<close>

lemma create_graph_result:
  assumes "create_graph self tp w = (Inr (lms, envs), w')"
  shows "envs = [Environment (instances w) (env_params self) (visualization_parameters self)] \<and>
         length lms = length (agents_params self) \<and>
         (\<forall>i<length lms.
            level_built self (hd envs) i (agents_params self ! i)
              (if Suc i < length lms then Level (lms ! Suc i) else RealEnvironment (hd envs))
              (lms ! i))"
proof -
  let ?env = "Environment (instances w) (env_params self) (visualization_parameters self)"
  let ?ps = "rev (List.enumerate 0 (agents_params self))"
  obtain w1 where e:
    "instantiate_environment (env_params self) (visualization_parameters self) w = (?env, w1)"
    by (simp add: instantiate_environment_def)
  obtain r w3 where bl:
    "build_levels self ?env ?ps (RealEnvironment ?env) []
       (fold (set_task_parameters tp) (agents_params self) w1) = (r, w3)"
    by (cases "build_levels self ?env ?ps (RealEnvironment ?env) []
       (fold (set_task_parameters tp) (agents_params self) w1)")
  from assms have r: "r = Inr lms" and envs: "envs = [?env]"
    by (auto simp: create_graph_def e bl split: sum.splits)
  from build_levels_result [OF bl [unfolded r]] have
    len: "length lms = length ?ps" and
    each: "\<forall>j<length ?ps.
             level_built self ?env (fst (rev ?ps ! j)) (snd (rev ?ps ! j))
               (if Suc j < length ?ps then Level (lms ! Suc j) else RealEnvironment ?env) (lms ! j)"
    by auto
  have lps: "length ?ps = length (agents_params self)" by simp
  have all: "\<forall>i<length lms. level_built self ?env i (agents_params self ! i)
          (if Suc i < length lms then Level (lms ! Suc i) else RealEnvironment ?env) (lms ! i)"
  proof (intro allI impI)
    fix i assume that: "i < length lms"
    have "i < length ?ps" using that len by simp
    with each have "level_built self ?env (fst (rev ?ps ! i)) (snd (rev ?ps ! i))
               (if Suc i < length ?ps then Level (lms ! Suc i) else RealEnvironment ?env) (lms ! i)"
      by blast
    moreover have "rev ?ps ! i = (i, agents_params self ! i)"
      using that len by (simp add: nth_enumerate_eq)
    ultimately show "level_built self ?env i (agents_params self ! i)
          (if Suc i < length lms then Level (lms ! Suc i) else RealEnvironment ?env) (lms ! i)"
      using len by simp
  qed
  show ?thesis
  proof (intro conjI)
    show "envs = [?env]" by (rule envs)
    show "length lms = length (agents_params self)" using len by simp
    show "\<forall>i<length lms.
            level_built self (hd envs) i (agents_params self ! i)
              (if Suc i < length lms then Level (lms ! Suc i) else RealEnvironment (hd envs))
              (lms ! i)"
      unfolding envs list.sel by (rule all)
  qed
qed

lemma create_graph_returns:
  assumes "consecutive_steps_to_run_non_top_levels self = Some d"
  shows "\<exists>lms envs w'. create_graph self tp w = (Inr (lms, envs), w')"
proof -
  obtain env w1 where e:
    "instantiate_environment (env_params self) (visualization_parameters self) w = (env, w1)"
    by (cases "instantiate_environment (env_params self) (visualization_parameters self) w")
  obtain out w3 where
    "build_levels self env (rev (List.enumerate 0 (agents_params self))) (RealEnvironment env) []
       (fold (set_task_parameters tp) (agents_params self) w1) = (Inr out, w3)"
    using build_levels_returns [OF assms] by blast
  then show ?thesis by (simp add: create_graph_def e)
qed

lemma create_graph_raises:
  assumes "consecutive_steps_to_run_non_top_levels self = None"
      and "2 \<le> length (agents_params self)"
  shows "fst (create_graph self tp w) =
           Inl (AttributeError ''consecutive_steps_to_run_non_top_levels'')"
proof -
  let ?ps = "rev (List.enumerate 0 (agents_params self))"
  obtain env w1 where e:
    "instantiate_environment (env_params self) (visualization_parameters self) w = (env, w1)"
    by (cases "instantiate_environment (env_params self) (visualization_parameters self) w")
  obtain r w3 where bl:
    "build_levels self env ?ps (RealEnvironment env) []
       (fold (set_task_parameters tp) (agents_params self) w1) = (r, w3)"
    by (cases "build_levels self env ?ps (RealEnvironment env) []
       (fold (set_task_parameters tp) (agents_params self) w1)")
  obtain as a where as: "agents_params self = as @ [a]"
    using assms(2) by (cases "agents_params self" rule: rev_cases) auto
  have pos: "0 < length as" using assms(2) as by (cases as) auto
  have ps: "?ps = (length as, a) # rev (List.enumerate 0 as)"
    using as by (simp add: enumerate_append_eq)
  have "fst (build_levels self env ?ps (RealEnvironment env) []
       (fold (set_task_parameters tp) (agents_params self) w1)) =
       Inl (AttributeError ''consecutive_steps_to_run_non_top_levels'')"
    unfolding ps by (rule build_levels_raises [OF assms(1) pos])
  then have "r = Inl (AttributeError ''consecutive_steps_to_run_non_top_levels'')"
    by (simp add: bl)
  then show ?thesis by (simp add: create_graph_def e bl)
qed

text \<open>The graph manager a successful constructor call returns.\<close>

lemma init_returns_manager:
  assumes "HACGraphManager_init aps ep sched vis steps preset w0 = (Inr m, w1)"
  shows "agents_params m = aps \<and> env_params m = ep \<and> visualization_parameters m = vis \<and>
         2 \<le> length aps \<and>
         consecutive_steps_to_run_non_top_levels m =
           (case steps of AsEnvironmentSteps d \<Rightarrow> Some d | _ \<Rightarrow> None)"
  using assms by (auto simp: init_cases split: if_splits)

text \<open>The same facts, one level manager at a time.\<close>

lemma create_graph_levels:
  assumes run: "create_graph self tp w = (Inr (lms, envs), w')"
  shows "envs = [Environment (instances w) (env_params self) (visualization_parameters self)]"
    and "length lms = length (agents_params self)"
    and "i < length lms \<Longrightarrow> level_name (lms ! i) = ''level_'' @ format_nat i"
    and "i < length lms \<Longrightarrow> params_ref (agents (lms ! i)) = agents_params self ! i"
    and "i < length lms \<Longrightarrow> real_environment (lms ! i) = hd envs"
    and "i < length lms \<Longrightarrow> steps_limit_of self i = Inr (steps_limit (lms ! i))"
    and "i < length lms \<Longrightarrow>
           should_reset_agent_state_after_time_limit_passes (lms ! i) = (0 < i)"
    and "Suc i < length lms \<Longrightarrow> environment (lms ! i) = Level (lms ! Suc i)"
    and "Suc i = length lms \<Longrightarrow> environment (lms ! i) = RealEnvironment (hd envs)"
proof -
  note r = create_graph_result [OF run]
  show "envs = [Environment (instances w) (env_params self) (visualization_parameters self)]"
    and "length lms = length (agents_params self)"
    using r by simp_all
  have b: "level_built self (hd envs) j (agents_params self ! j)
              (if Suc j < length lms then Level (lms ! Suc j) else RealEnvironment (hd envs))
              (lms ! j)" if "j < length lms" for j
    using r that by blast
  show "i < length lms \<Longrightarrow> level_name (lms ! i) = ''level_'' @ format_nat i"
    and "i < length lms \<Longrightarrow> params_ref (agents (lms ! i)) = agents_params self ! i"
    and "i < length lms \<Longrightarrow> real_environment (lms ! i) = hd envs"
    and "i < length lms \<Longrightarrow> steps_limit_of self i = Inr (steps_limit (lms ! i))"
    and "i < length lms \<Longrightarrow>
           should_reset_agent_state_after_time_limit_passes (lms ! i) = (0 < i)"
    using b [of i] by (simp_all add: level_built_def)
  show "Suc i < length lms \<Longrightarrow> environment (lms ! i) = Level (lms ! Suc i)"
    using b [of i] by (simp add: level_built_def)
  show "Suc i = length lms \<Longrightarrow> environment (lms ! i) = RealEnvironment (hd envs)"
    using b [of i] by (simp add: level_built_def)
qed

text \<open>
  Claim C5. Take any graph manager the constructor returned. Whenever
  \<open>_create_graph\<close> returns, the list of level managers has one entry per agent
  configuration (so at least two), entry \<open>i\<close> is the level manager named
  \<open>level_i\<close> whose agent was built from the \<open>i\<close>-th configuration (top level
  first), the last entry is bound to the true environment, the only element of the
  returned environment list, and every other entry is bound to the entry after it.
  With a single \<open>EnvironmentSteps\<close> duration \<open>_create_graph\<close> does return.
\<close>

theorem C5_levels_chained:
  assumes "HACGraphManager_init aps ep sched vis steps preset w0 = (Inr m, w1)"
  shows "(\<forall>d. steps = AsEnvironmentSteps d \<longrightarrow>
            (\<exists>lms envs w'. create_graph m tp w = (Inr (lms, envs), w')))
       \<and> (\<forall>lms envs w'. create_graph m tp w = (Inr (lms, envs), w') \<longrightarrow>
            length lms = length aps \<and> 2 \<le> length lms \<and>
            (\<forall>i<length lms.
               level_name (lms ! i) = ''level_'' @ format_nat i \<and>
               params_ref (agents (lms ! i)) = aps ! i) \<and>
            (\<exists>env. envs = [env] \<and> environment (last lms) = RealEnvironment env) \<and>
            (\<forall>i. Suc i < length lms \<longrightarrow> environment (lms ! i) = Level (lms ! Suc i)))"
proof -
  note m = init_returns_manager [OF assms]
  have returns: "\<exists>lms envs w'. create_graph m tp w = (Inr (lms, envs), w')"
    if "steps = AsEnvironmentSteps d" for d
  proof -
    have "consecutive_steps_to_run_non_top_levels m = Some d" using m that by simp
    then show ?thesis by (rule create_graph_returns)
  qed
  have shape: "length lms = length aps \<and> 2 \<le> length lms \<and>
            (\<forall>i<length lms.
               level_name (lms ! i) = ''level_'' @ format_nat i \<and>
               params_ref (agents (lms ! i)) = aps ! i) \<and>
            (\<exists>env. envs = [env] \<and> environment (last lms) = RealEnvironment env) \<and>
            (\<forall>i. Suc i < length lms \<longrightarrow> environment (lms ! i) = Level (lms ! Suc i))"
    if run: "create_graph m tp w = (Inr (lms, envs), w')" for lms envs w'
  proof -
    note g = create_graph_levels [OF run]
    have len: "length lms = length aps" using g(2) m by simp
    then have two: "2 \<le> length lms" using m by simp
    then have "lms \<noteq> []" by auto
    then have "last lms = lms ! (length lms - 1)" and "Suc (length lms - 1) = length lms"
      by (simp_all add: last_conv_nth)
    then have "environment (last lms) = RealEnvironment (hd envs)"
      using g(9) [of "length lms - 1"] by simp
    then have bottom: "\<exists>env. envs = [env] \<and> environment (last lms) = RealEnvironment env"
      using g(1) by simp
    show ?thesis using len two bottom g(3,4,8) m by simp
  qed
  show ?thesis using returns shape by blast
qed

theorem C5_levels_chained_witness:
  "\<exists>m w1 lms envs w'.
     HACGraphManager_init [0, 1] sample_env_params () (3::nat)
       (AsEnvironmentSteps (EnvironmentSteps 5) :: unit steps_argument) () sample_world = (Inr m, w1) \<and>
     create_graph m () w1 = (Inr (lms, envs), w') \<and>
     length lms = 2 \<and>
     level_name (lms ! 0) = ''level_0'' \<and> params_ref (agents (lms ! 0)) = 0 \<and>
     level_name (lms ! 1) = ''level_1'' \<and> params_ref (agents (lms ! 1)) = 1 \<and>
     environment (lms ! 0) = Level (lms ! 1) \<and>
     environment (lms ! 1) = RealEnvironment (hd envs)"
proof -
  obtain m w1 where init:
    "HACGraphManager_init [0, 1] sample_env_params () (3::nat)
       (AsEnvironmentSteps (EnvironmentSteps 5) :: unit steps_argument) () sample_world = (Inr m, w1)"
    by (simp add: init_cases)
  note c = C5_levels_chained [OF init, of "()" w1]
  from c obtain lms envs w' where run: "create_graph m () w1 = (Inr (lms, envs), w')"
    by blast
  with c have p: "length lms = length [0::nat, 1] \<and> 2 \<le> length lms \<and>
            (\<forall>i<length lms.
               level_name (lms ! i) = ''level_'' @ format_nat i \<and>
               params_ref (agents (lms ! i)) = [0, 1] ! i) \<and>
            (\<exists>env. envs = [env] \<and> environment (last lms) = RealEnvironment env) \<and>
            (\<forall>i. Suc i < length lms \<longrightarrow> environment (lms ! i) = Level (lms ! Suc i))"
    by blast
  then have len: "length lms = 2" by simp
  have l0: "level_name (lms ! 0) = ''level_0'' \<and> params_ref (agents (lms ! 0)) = 0"
    using p len by (auto simp: format_nat.simps dest!: spec [of _ 0])
  have l1: "level_name (lms ! 1) = ''level_1'' \<and> params_ref (agents (lms ! 1)) = 1"
    using p len by (auto simp: format_nat.simps dest!: spec [of _ 1])
  have e0: "environment (lms ! 0) = Level (lms ! 1)"
    using p len by (auto dest!: spec [of _ 0])
  have "lms \<noteq> []" using len by auto
  then have "last lms = lms ! 1" using len by (simp add: last_conv_nth)
  then have e1: "environment (lms ! 1) = RealEnvironment (hd envs)" using p by auto
  show ?thesis using init run len l0 l1 e0 e1 by blast
qed

text \<open>
  Claim C7. Whenever \<open>_create_graph\<close> returns for a graph manager the constructor
  returned, the flag \<open>should_reset_agent_state_after_time_limit_passes\<close> handed to
  the level manager of level \<open>i\<close> is false for the top level \<open>i = 0\<close> and true for
  every level below it. With a single \<open>EnvironmentSteps\<close> duration it does return.
\<close>

theorem C7_reset_flags:
  assumes "HACGraphManager_init aps ep sched vis steps preset w0 = (Inr m, w1)"
  shows "(\<forall>d. steps = AsEnvironmentSteps d \<longrightarrow>
            (\<exists>lms envs w'. create_graph m tp w = (Inr (lms, envs), w')))
       \<and> (\<forall>lms envs w'. create_graph m tp w = (Inr (lms, envs), w') \<longrightarrow>
            length lms = length aps \<and>
            should_reset_agent_state_after_time_limit_passes (lms ! 0) = False \<and>
            (\<forall>i<length lms.
               should_reset_agent_state_after_time_limit_passes (lms ! i) = (0 < i)))"
proof -
  note m = init_returns_manager [OF assms]
  have returns: "\<exists>lms envs w'. create_graph m tp w = (Inr (lms, envs), w')"
    if "steps = AsEnvironmentSteps d" for d
  proof -
    have "consecutive_steps_to_run_non_top_levels m = Some d" using m that by simp
    then show ?thesis by (rule create_graph_returns)
  qed
  have flags: "length lms = length aps \<and>
            should_reset_agent_state_after_time_limit_passes (lms ! 0) = False \<and>
            (\<forall>i<length lms.
               should_reset_agent_state_after_time_limit_passes (lms ! i) = (0 < i))"
    if run: "create_graph m tp w = (Inr (lms, envs), w')" for lms envs w'
  proof -
    note g = create_graph_levels [OF run]
    have len: "length lms = length aps" using g(2) m by simp
    have "2 \<le> length aps" using m by simp
    with len have "0 < length lms" by arith
    then have "should_reset_agent_state_after_time_limit_passes (lms ! 0) = False"
      using g(7) [of 0] by simp
    then show ?thesis using len g(7) by simp
  qed
  show ?thesis using returns flags by blast
qed

theorem C7_reset_flags_witness:
  "\<exists>m w1 lms envs w'.
     HACGraphManager_init [0, 1, 2] sample_env_params () (3::nat)
       (AsEnvironmentSteps (EnvironmentSteps 5) :: unit steps_argument) () sample_world = (Inr m, w1) \<and>
     create_graph m () w1 = (Inr (lms, envs), w') \<and>
     length lms = 3 \<and>
     should_reset_agent_state_after_time_limit_passes (lms ! 0) = False \<and>
     should_reset_agent_state_after_time_limit_passes (lms ! 1) = True \<and>
     should_reset_agent_state_after_time_limit_passes (lms ! 2) = True"
proof -
  obtain m w1 where init:
    "HACGraphManager_init [0, 1, 2] sample_env_params () (3::nat)
       (AsEnvironmentSteps (EnvironmentSteps 5) :: unit steps_argument) () sample_world = (Inr m, w1)"
    by (simp add: init_cases)
  note c = C7_reset_flags [OF init, of "()" w1]
  from c obtain lms envs w' where run: "create_graph m () w1 = (Inr (lms, envs), w')"
    by blast
  with c have p: "length lms = length [0::nat, 1, 2] \<and>
            should_reset_agent_state_after_time_limit_passes (lms ! 0) = False \<and>
            (\<forall>i<length lms.
               should_reset_agent_state_after_time_limit_passes (lms ! i) = (0 < i))"
    by blast
  then have len: "length lms = 3" by simp
  have f1: "should_reset_agent_state_after_time_limit_passes (lms ! 1) = True"
    using p len by (auto dest!: spec [of _ 1])
  have f2: "should_reset_agent_state_after_time_limit_passes (lms ! 2) = True"
    using p len by (auto dest!: spec [of _ 2])
  show ?thesis using init run len p f1 f2 by blast
qed

text \<open>
  Claim C8. Whenever \<open>_create_graph\<close> returns for a graph manager the constructor
  returned, the environment list has exactly one element, the environment instantiated
  at the start of the call from the constructor's environment and visualization
  parameters, and that same instance is the \<open>real_environment\<close> of every level
  manager in the list. With a single \<open>EnvironmentSteps\<close> duration it does return.
\<close>

theorem C8_single_root_environment:
  assumes "HACGraphManager_init aps ep sched vis steps preset w0 = (Inr m, w1)"
  shows "(\<forall>d. steps = AsEnvironmentSteps d \<longrightarrow>
            (\<exists>lms envs w'. create_graph m tp w = (Inr (lms, envs), w')))
       \<and> (\<forall>lms envs w'. create_graph m tp w = (Inr (lms, envs), w') \<longrightarrow>
            envs = [Environment (instances w) ep vis] \<and>
            length envs = 1 \<and>
            (\<forall>lm\<in>set lms. real_environment lm = hd envs))"
proof -
  note m = init_returns_manager [OF assms]
  have returns: "\<exists>lms envs w'. create_graph m tp w = (Inr (lms, envs), w')"
    if "steps = AsEnvironmentSteps d" for d
  proof -
    have "consecutive_steps_to_run_non_top_levels m = Some d" using m that by simp
    then show ?thesis by (rule create_graph_returns)
  qed
  have root: "envs = [Environment (instances w) ep vis] \<and> length envs = 1 \<and>
            (\<forall>lm\<in>set lms. real_environment lm = hd envs)"
    if run: "create_graph m tp w = (Inr (lms, envs), w')" for lms envs w'
  proof -
    note g = create_graph_levels [OF run]
    have "real_environment lm = hd envs" if "lm \<in> set lms" for lm
    proof -
      from that obtain i where "i < length lms" and "lms ! i = lm"
        by (auto simp: in_set_conv_nth)
      then show ?thesis using g(5) [of i] by simp
    qed
    then show ?thesis using g(1) m by simp
  qed
  show ?thesis using returns root by blast
qed

theorem C8_single_root_environment_witness:
  "\<exists>m w1 lms envs w'.
     HACGraphManager_init [0, 1] sample_env_params () (3::nat)
       (AsEnvironmentSteps (EnvironmentSteps 5) :: unit steps_argument) () sample_world = (Inr m, w1) \<and>
     create_graph m () w1 = (Inr (lms, envs), w') \<and>
     envs = [Environment 0 sample_env_params 3] \<and>
     length lms = 2 \<and>
     real_environment (lms ! 0) = Environment 0 sample_env_params 3 \<and>
     real_environment (lms ! 1) = Environment 0 sample_env_params 3"
proof -
  obtain m w1 where init:
    "HACGraphManager_init [0, 1] sample_env_params () (3::nat)
       (AsEnvironmentSteps (EnvironmentSteps 5) :: unit steps_argument) () sample_world = (Inr m, w1)"
    by (simp add: init_cases)
  have w1: "instances w1 = 0"
    using init by (auto simp: init_cases fill_defaults_instances sample_world_def)
  note c = C8_single_root_environment [OF init, of "()" w1]
  from c obtain lms envs w' where run: "create_graph m () w1 = (Inr (lms, envs), w')"
    by blast
  with c have p: "envs = [Environment (instances w1) sample_env_params 3] \<and> length envs = 1 \<and>
            (\<forall>lm\<in>set lms. real_environment lm = hd envs)"
    by blast
  have len: "length lms = 2"
    using create_graph_levels(2) [OF run] init by (auto simp: init_cases)
  then have "lms ! 0 \<in> set lms" and "lms ! 1 \<in> set lms" by simp_all
  then have "real_environment (lms ! 0) = Environment 0 sample_env_params 3"
    and "real_environment (lms ! 1) = Environment 0 sample_env_params 3"
    using p w1 by auto
  then show ?thesis using init run p w1 len by auto
qed

text \<open>
  The step budgets when the duration is a single \<open>EnvironmentSteps\<close>: one
  environment step for the top level, the shared value for every level below it.
\<close>

lemma scalar_duration_step_budgets:
  assumes "HACGraphManager_init aps ep sched vis (AsEnvironmentSteps d) preset w0 = (Inr m, w1)"
  shows "\<exists>lms envs w'. create_graph m tp w = (Inr (lms, envs), w') \<and>
           length lms = length aps \<and>
           steps_limit (lms ! 0) = EnvironmentSteps 1 \<and>
           (\<forall>i. 0 < i \<and> i < length lms \<longrightarrow> steps_limit (lms ! i) = d)"
proof -
  note m = init_returns_manager [OF assms]
  then have some: "consecutive_steps_to_run_non_top_levels m = Some d" by simp
  from create_graph_returns [OF some, of tp w] obtain lms envs w' where
    run: "create_graph m tp w = (Inr (lms, envs), w')" by auto
  note g = create_graph_levels [OF run]
  have len: "length lms = length aps" using g(2) m by simp
  have "2 \<le> length aps" using m by simp
  with len have "0 < length lms" by arith
  then have top: "steps_limit (lms ! 0) = EnvironmentSteps 1"
    using g(6) [of 0] by (simp add: steps_limit_of_def)
  have "steps_limit (lms ! i) = d" if "0 < i" and "i < length lms" for i
    using g(6) [of i] that some by (simp add: steps_limit_of_def)
  then show ?thesis using run len top by blast
qed

text \<open>
  Claim C1 says that below the top level the step budget is the shared duration, or,
  when a list was supplied, that level's entry; the docstring of the constructor
  promises the same (``an EnvironmentSteps for each level as a list''). The shared
  duration is handled as claimed (\<open>scalar_duration_step_budgets\<close>). A list is not:
  the constructor checks its length and drops it, so with two levels and the durations
  \<open>[EnvironmentSteps(4), EnvironmentSteps(9)]\<close> the constructor returns a graph
  manager without the attribute, and \<open>_create_graph\<close> raises \<open>AttributeError\<close>
  while it computes the budget of level 1, before any level manager exists.
\<close>

theorem C1_list_duration_has_no_budget:
  "fst (HACGraphManager_init [0, 1] sample_env_params () (3::nat)
       (AsList [EnvironmentSteps 4, EnvironmentSteps 9] :: unit steps_argument) () sample_world)
     = Inr \<lparr>manager_name = ''hac_graph'', visualization_parameters = 3,
            agents_params = [0, 1], env_params = sample_env_params,
            preset_validation_params = (), should_test_current_sub_goal = None,
            consecutive_steps_to_run_non_top_levels = None\<rparr> \<and>
   fst (create_graph
         \<lparr>manager_name = ''hac_graph'', visualization_parameters = 3::nat,
          agents_params = [0, 1], env_params = sample_env_params,
          preset_validation_params = (), should_test_current_sub_goal = None,
          consecutive_steps_to_run_non_top_levels = None\<rparr> ()
         (snd (HACGraphManager_init [0, 1] sample_env_params () (3::nat)
           (AsList [EnvironmentSteps 4, EnvironmentSteps 9] :: unit steps_argument) ()
           sample_world)))
     = Inl (AttributeError ''consecutive_steps_to_run_non_top_levels'')"
  by (simp add: init_cases create_graph_def instantiate_environment_def instantiate_agent_def
      steps_limit_of_def Let_def)

text \<open>
  Claim C10, as stated, fails for hierarchies of fewer than two levels: a list whose
  length equals the number of agent configurations passes the first check, but with one
  configuration the constructor still raises the error about the number of levels.
\<close>

theorem C10_counterexample:
  "length [EnvironmentSteps 4] = length [0::nat] \<and>
   fst (HACGraphManager_init [0] sample_env_params () (3::nat)
          (AsList [EnvironmentSteps 4] :: unit steps_argument) () sample_world)
     = Inl (ValueError too_few_levels_message)"
  by (simp add: init_cases)

text \<open>
  Claim C10, amended. With at least two agent configurations and a duration list of
  the same length, the constructor returns a graph manager on which the attribute
  \<open>consecutive_steps_to_run_non_top_levels\<close> is unset; computing the step budget of
  any level below the top then raises \<open>AttributeError\<close>, and so does every call of
  \<open>_create_graph\<close> on that graph manager.
\<close>

theorem C10_list_duration_never_stored:
  assumes "2 \<le> length aps" and "length l = length aps"
  shows "\<exists>m w1. HACGraphManager_init aps ep sched vis (AsList l :: 'x steps_argument) preset w0 = (Inr m, w1) \<and>
           consecutive_steps_to_run_non_top_levels m = None \<and>
           (\<forall>i. 0 < i \<longrightarrow>
              steps_limit_of m i = Inl (AttributeError ''consecutive_steps_to_run_non_top_levels'')) \<and>
           (\<forall>tp w. fst (create_graph m tp w) =
              Inl (AttributeError ''consecutive_steps_to_run_non_top_levels''))"
proof -
  obtain m w1 where init:
    "HACGraphManager_init aps ep sched vis (AsList l :: 'x steps_argument) preset w0 = (Inr m, w1)"
    using assms by (simp add: init_cases)
  note m = init_returns_manager [OF init]
  then have none: "consecutive_steps_to_run_non_top_levels m = None" by simp
  have two: "2 \<le> length (agents_params m)" using m by simp
  show ?thesis
  proof (intro exI conjI allI impI)
    show "HACGraphManager_init aps ep sched vis (AsList l :: 'x steps_argument) preset w0 = (Inr m, w1)"
      by (rule init)
    show "consecutive_steps_to_run_non_top_levels m = None" by (rule none)
    show "steps_limit_of m i = Inl (AttributeError ''consecutive_steps_to_run_non_top_levels'')"
      if "0 < i" for i
      using that none by (simp add: steps_limit_of_def)
    show "fst (create_graph m tp w) =
        Inl (AttributeError ''consecutive_steps_to_run_non_top_levels'')" for tp w
      by (rule create_graph_raises [OF none two])
  qed
qed

theorem C10_list_duration_never_stored_witness:
  "2 \<le> length [0::nat, 1] \<and>
   length [EnvironmentSteps 4, EnvironmentSteps 9] = length [0::nat, 1] \<and>
   (\<exists>m w1.
     HACGraphManager_init [0, 1] sample_env_params () (3::nat)
       (AsList [EnvironmentSteps 4, EnvironmentSteps 9] :: unit steps_argument) () sample_world
       = (Inr m, w1) \<and>
     consecutive_steps_to_run_non_top_levels m = None \<and>
     steps_limit_of m 1 = Inl (AttributeError ''consecutive_steps_to_run_non_top_levels'') \<and>
     fst (create_graph m () w1) = Inl (AttributeError ''consecutive_steps_to_run_non_top_levels''))"
proof -
  have "\<exists>m w1. HACGraphManager_init [0, 1] sample_env_params () (3::nat)
       (AsList [EnvironmentSteps 4, EnvironmentSteps 9] :: unit steps_argument) () sample_world
       = (Inr m, w1) \<and>
     consecutive_steps_to_run_non_top_levels m = None \<and>
     (\<forall>i. 0 < i \<longrightarrow>
        steps_limit_of m i = Inl (AttributeError ''consecutive_steps_to_run_non_top_levels'')) \<and>
     (\<forall>tp w. fst (create_graph m tp (w :: (nat, nat, unit) world)) =
        Inl (AttributeError ''consecutive_steps_to_run_non_top_levels''))"
    by (rule C10_list_duration_never_stored) simp_all
  then obtain m w1 where
    init: "HACGraphManager_init [0, 1] sample_env_params () (3::nat)
       (AsList [EnvironmentSteps 4, EnvironmentSteps 9] :: unit steps_argument) () sample_world
       = (Inr m, w1)"
    and none: "consecutive_steps_to_run_non_top_levels m = None"
    and limit: "\<forall>i. 0 < i \<longrightarrow>
        steps_limit_of m i = Inl (AttributeError ''consecutive_steps_to_run_non_top_levels'')"
    and graph: "\<forall>tp w. fst (create_graph m tp (w :: (nat, nat, unit) world)) =
        Inl (AttributeError ''consecutive_steps_to_run_non_top_levels'')"
    by blast
  from limit have l1: "steps_limit_of m 1 =
      Inl (AttributeError ''consecutive_steps_to_run_non_top_levels'')"
    by simp
  from graph have g1: "fst (create_graph m () w1) =
      Inl (AttributeError ''consecutive_steps_to_run_non_top_levels'')"
    by simp
  have "\<exists>m w1.
     HACGraphManager_init [0, 1] sample_env_params () (3::nat)
       (AsList [EnvironmentSteps 4, EnvironmentSteps 9] :: unit steps_argument) () sample_world
       = (Inr m, w1) \<and>
     consecutive_steps_to_run_non_top_levels m = None \<and>
     steps_limit_of m 1 = Inl (AttributeError ''consecutive_steps_to_run_non_top_levels'') \<and>
     fst (create_graph m () w1) = Inl (AttributeError ''consecutive_steps_to_run_non_top_levels'')"
    using init none l1 g1 by (intro exI conjI)
  then show ?thesis by simp
qed

end
